theory Spec2Isabelle
  imports Complex_Main
begin

section \<open>Readings and the rolling history buffer (utils.py)\<close>

text \<open>
  A reading is the dictionary built by \<open>SensorData.generate_reading\<close>. The timestamp is
  the string \<open>timestamp.isoformat()\<close> while the reading sits in the buffer and a parsed
  datetime once \<open>get_sensor_dataframe\<close> has converted the column, hence the type
  parameter. The three measurements are floats rounded to one decimal; they are modelled
  as real numbers with exact arithmetic.
\<close>

record 't reading =
  timestamp :: 't
  temperature :: real
  humidity :: real
  pressure :: real
  status :: string

text \<open>\<open>recent_readings = deque(maxlen=100)\<close>\<close>

definition maxlen :: nat where
  "maxlen = 100"

text \<open>
  \<open>deque.append\<close> of a bounded deque: the item is added on the right and, when the deque
  then holds more than \<open>maxlen\<close> items, one item is removed from the left.
\<close>

definition deque_append :: "'a list \<Rightarrow> 'a \<Rightarrow> 'a list" where
  "deque_append buf x =
     (let buf' = buf @ [x] in if maxlen < length buf' then tl buf' else buf')"

text \<open>\<open>deque.extend\<close> appends the items one by one, left to right.\<close>

definition deque_extend :: "'a list \<Rightarrow> 'a list \<Rightarrow> 'a list" where
  "deque_extend buf xs = foldl deque_append buf xs"

section \<open>Timestamps: \<open>datetime.isoformat\<close> and the strptime of the conversion\<close>

text \<open>Python's naive \<open>datetime\<close> value, as passed to \<open>generate_reading\<close>.\<close>

record datetime =
  year :: nat
  month :: nat
  day :: nat
  hour :: nat
  minute :: nat
  second :: nat
  microsecond :: nat

definition digit :: "nat \<Rightarrow> char" where
  "digit n = char_of (48 + n)"

definition pad2 :: "nat \<Rightarrow> string" where
  "pad2 n = [digit (n div 10 mod 10), digit (n mod 10)]"

definition pad4 :: "nat \<Rightarrow> string" where
  "pad4 n = pad2 (n div 100) @ pad2 n"

definition pad6 :: "nat \<Rightarrow> string" where
  "pad6 n = pad2 (n div 10000) @ pad4 n"

text \<open>
  \<open>datetime.isoformat()\<close> with the default separator and \<open>timespec='auto'\<close>:
  \<open>YYYY-MM-DDTHH:MM:SS.ffffff\<close>, or \<open>YYYY-MM-DDTHH:MM:SS\<close> when \<open>microsecond\<close> is 0.
\<close>

definition isoformat :: "datetime \<Rightarrow> string" where
  "isoformat dt =
     pad4 (year dt) @ ''-'' @ pad2 (month dt) @ ''-'' @ pad2 (day dt) @ ''T''
     @ pad2 (hour dt) @ '':'' @ pad2 (minute dt) @ '':'' @ pad2 (second dt)
     @ (if microsecond dt = 0 then [] else ''.'' @ pad6 (microsecond dt))"

text \<open>
  \<open>SensorData.generate_reading\<close>: the timestamp defaults to \<open>datetime.now()\<close> (the
  parameter \<open>now\<close>) and is stored as its \<open>isoformat()\<close> string; the values drawn at random
  are the parameters \<open>t\<close>, \<open>h\<close>, \<open>p\<close> and \<open>st\<close>.
\<close>

definition generate_reading ::
    "datetime \<Rightarrow> datetime option \<Rightarrow> real \<Rightarrow> real \<Rightarrow> real \<Rightarrow> string \<Rightarrow> string reading" where
  "generate_reading now ts t h p st =
     (let ts' = (case ts of None \<Rightarrow> now | Some x \<Rightarrow> x)
      in \<lparr>timestamp = isoformat ts', temperature = t, humidity = h, pressure = p,
          status = st\<rparr>)"

text \<open>
  The value of the parsed \<open>timestamp\<close> column. The fields are named after the
  directives of the format that fill them; \<open>pf\<close> is the integer read by \<open>%f\<close>.
\<close>

record parsed =
  pY :: nat
  pm :: nat
  pd :: nat
  pH :: nat
  pM :: nat
  pS :: nat
  pf :: nat

definition is_digit :: "char \<Rightarrow> bool" where
  "is_digit c = (48 \<le> (of_char c :: nat) \<and> (of_char c :: nat) \<le> 57)"

definition digit_val :: "char \<Rightarrow> nat" where
  "digit_val c = of_char c - 48"

text \<open>
  A numeric directive reads at least one and at most \<open>w\<close> decimal digits, as many as
  there are.
\<close>

definition scan_number :: "nat \<Rightarrow> string \<Rightarrow> (nat \<times> string) option" where
  "scan_number w s =
     (let ds = takeWhile is_digit (take w s)
      in if ds = [] then None
         else Some (foldl (\<lambda>a c. 10 * a + digit_val c) 0 ds, drop (length ds) s))"

text \<open>Widths of the numeric directives: \<open>%Y\<close> 4, \<open>%f\<close> 9, \<open>%m %d %H %M %S\<close> 2.\<close>

definition width :: "char \<Rightarrow> nat option" where
  "width d =
     (if d = CHR ''Y'' then Some 4
      else if d = CHR ''f'' then Some 9
      else if d \<in> set ''mdHMS'' then Some 2
      else None)"

text \<open>
  The format is walked from left to right: a directive \<open>%d\<close> reads a number, any other
  character of the format must be the next character of the input, and the input must
  end where the format does. The result lists the numbers read, in the order of the
  directives. Signs and blanks before a number, which \<open>isoformat\<close> never produces, are
  not accepted.
\<close>

fun strptime_items :: "string \<Rightarrow> string \<Rightarrow> nat list option" where
  "strptime_items [] s = (if s = [] then Some [] else None)"
| "strptime_items (c # fmt) s =
     (if c = CHR ''%'' then
        (case fmt of
           [] \<Rightarrow> None
         | d # fmt' \<Rightarrow>
             (case width d of
                None \<Rightarrow> None
              | Some w \<Rightarrow>
                  (case scan_number w s of
                     None \<Rightarrow> None
                   | Some (v, rest) \<Rightarrow> map_option ((#) v) (strptime_items fmt' rest))))
      else
        (case s of
           [] \<Rightarrow> None
         | x # rest \<Rightarrow> if x = c then strptime_items fmt rest else None))"

definition leap_year :: "nat \<Rightarrow> bool" where
  "leap_year y = (y mod 4 = 0 \<and> (y mod 100 \<noteq> 0 \<or> y mod 400 = 0))"

definition days_in_month :: "nat \<Rightarrow> nat \<Rightarrow> nat" where
  "days_in_month y m =
     (if m = 2 then (if leap_year y then 29 else 28)
      else if m \<in> {4, 6, 9, 11} then 30 else 31)"

text \<open>
  The numbers read must form a calendar date and a time of day, otherwise the value does
  not parse.
\<close>

definition valid_fields :: "parsed \<Rightarrow> bool" where
  "valid_fields t =
     (1 \<le> pm t \<and> pm t \<le> 12 \<and> 1 \<le> pd t \<and> pd t \<le> days_in_month (pY t) (pm t)
      \<and> pH t \<le> 23 \<and> pM t \<le> 59 \<and> pS t \<le> 59)"

text \<open>The format string of \<open>get_sensor_dataframe\<close>.\<close>

definition timestamp_format :: string where
  "timestamp_format = ''%Y-%m-%dT%H:%M:%S.%f''"

definition strptime :: "string \<Rightarrow> string \<Rightarrow> parsed option" where
  "strptime fmt s =
     (case strptime_items fmt s of
        Some [Y, m, d, H, M, S, f] \<Rightarrow>
          (let t = \<lparr>pY = Y, pm = m, pd = d, pH = H, pM = M, pS = S, pf = f\<rparr>
           in if valid_fields t then Some t else None)
      | _ \<Rightarrow> None)"

section \<open>Conversion of the buffer to a data frame\<close>

text \<open>The only exception of the modelled code: a timestamp that does not parse.\<close>

datatype error = ComputeError

text \<open>
  \<open>pl.col("timestamp").str.strptime(pl.Datetime, format=...)\<close> is strict: the whole
  conversion raises as soon as one value of the column does not parse.
\<close>

fun parse_timestamps :: "string reading list \<Rightarrow> error + parsed reading list" where
  "parse_timestamps [] = Inr []"
| "parse_timestamps (r # rs) =
     (case strptime timestamp_format (timestamp r) of
        None \<Rightarrow> Inl ComputeError
      | Some t \<Rightarrow>
          (case parse_timestamps rs of
             Inl e \<Rightarrow> Inl e
           | Inr rows \<Rightarrow>
               Inr (\<lparr>timestamp = t, temperature = temperature r, humidity = humidity r,
                     pressure = pressure r, status = status r\<rparr> # rows)))"

text \<open>
  \<open>get_sensor_dataframe\<close>: the empty frame for the empty buffer, otherwise one row per
  reading, in buffer order, with the timestamp column parsed.
\<close>

definition get_sensor_dataframe :: "string reading list \<Rightarrow> error + parsed reading list" where
  "get_sensor_dataframe recent_readings =
     (if recent_readings = [] then Inr [] else parse_timestamps recent_readings)"

section \<open>Column values\<close>

text \<open>
  A float of a computed column: a number, or one of the values a float division by zero
  yields instead of raising.
\<close>

datatype f64 = Num real | PosInf | NegInf | NaN

text \<open>The values found in the dictionaries the functions return.\<close>

datatype cell =
    Null
  | Float f64
  | Str string
  | UInt nat
  | Datetime parsed
  | Struct "(string \<times> cell) list"

definition float_cell :: "real option \<Rightarrow> cell" where
  "float_cell v = (case v of None \<Rightarrow> Null | Some x \<Rightarrow> Float (Num x))"

text \<open>\<open>Expr.mean()\<close>: the arithmetic mean, null for an empty column.\<close>

definition mean :: "real list \<Rightarrow> real option" where
  "mean xs = (if xs = [] then None else Some (sum_list xs / real (length xs)))"

text \<open>
  \<open>Expr.std()\<close> with the default \<open>ddof=1\<close>: the square root of the sum of squared
  deviations from the mean divided by \<open>n - 1\<close>, null when \<open>n \<le> ddof\<close>.
\<close>

definition std :: "real list \<Rightarrow> real option" where
  "std xs =
     (if length xs \<le> 1 then None
      else let m = sum_list xs / real (length xs)
           in Some (sqrt (sum_list (map (\<lambda>x. (x - m)\<^sup>2) xs) / real (length xs - 1))))"

text \<open>
  \<open>Expr.value_counts()\<close> with the default \<open>sort=False\<close>: one struct per distinct value,
  holding the value and the number of its occurrences. The order of the structs is not
  determined by the call; it is the parameter \<open>groups\<close>, a list of the distinct values of
  the column.
\<close>

definition value_counts :: "string list \<Rightarrow> string list \<Rightarrow> cell list" where
  "value_counts groups xs =
     map (\<lambda>c. Struct [(''status'', Str c), (''count'', UInt (count_list xs c))]) groups"

definition group_order :: "string list \<Rightarrow> string list \<Rightarrow> bool" where
  "group_order groups xs = (distinct groups \<and> set groups = set xs)"

section \<open>Statistical summary\<close>

text \<open>
  \<open>get_statistical_summary\<close>: the empty dictionary for the empty frame; otherwise the
  seven selected columns as lists. The six aggregates are scalars, which \<open>select\<close>
  repeats to the height of the \<open>status_counts\<close> column.
\<close>

definition get_statistical_summary ::
    "string list \<Rightarrow> string reading list \<Rightarrow> error + (string \<times> cell list) list" where
  "get_statistical_summary groups recent_readings =
     (case get_sensor_dataframe recent_readings of
        Inl e \<Rightarrow> Inl e
      | Inr df \<Rightarrow>
          if df = [] then Inr []
          else
            let status_counts = value_counts groups (map status df);
                scalar = (\<lambda>v. replicate (length status_counts) (float_cell v))
            in Inr [(''temp_mean'', scalar (mean (map temperature df))),
                    (''temp_std'', scalar (std (map temperature df))),
                    (''humidity_mean'', scalar (mean (map humidity df))),
                    (''humidity_std'', scalar (std (map humidity df))),
                    (''pressure_mean'', scalar (mean (map pressure df))),
                    (''pressure_std'', scalar (std (map pressure df))),
                    (''status_counts'', status_counts)])"

section \<open>Anomaly detection\<close>

text \<open>Float division: a zero divisor gives NaN or an infinity, no exception.\<close>

definition fdiv :: "real \<Rightarrow> real \<Rightarrow> f64" where
  "fdiv a b =
     (if b = 0 then (if a = 0 then NaN else if 0 < a then PosInf else NegInf)
      else Num (a / b))"

fun fabs :: "f64 \<Rightarrow> f64" where
  "fabs (Num r) = Num \<bar>r\<bar>"
| "fabs PosInf = PosInf"
| "fabs NegInf = PosInf"
| "fabs NaN = NaN"

text \<open>
  Comparison \<open>x > c\<close> with a number \<open>c\<close>. Polars orders floats totally: NaN is greater
  than every number.
\<close>

fun f64_gt :: "f64 \<Rightarrow> real \<Rightarrow> bool" where
  "f64_gt (Num r) c = (c < r)"
| "f64_gt PosInf c = True"
| "f64_gt NegInf c = False"
| "f64_gt NaN c = True"

text \<open>
  The column \<open>temp_zscore\<close>: \<open>(temperature - mean) / std\<close>, null where the mean or the
  standard deviation is null.
\<close>

definition temp_zscore :: "real option \<Rightarrow> real option \<Rightarrow> real \<Rightarrow> f64 option" where
  "temp_zscore m s x =
     (case m of
        None \<Rightarrow> None
      | Some m' \<Rightarrow> (case s of None \<Rightarrow> None | Some s' \<Rightarrow> Some (fdiv (x - m') s')))"

text \<open>The filter \<open>temp_zscore.abs() > 2\<close>; a row whose predicate is null is dropped.\<close>

definition is_outlier :: "f64 option \<Rightarrow> bool" where
  "is_outlier z = (case z of None \<Rightarrow> False | Some z' \<Rightarrow> f64_gt (fabs z') 2)"

text \<open>One dictionary of \<open>select(["timestamp", "temperature", "temp_zscore"]).to_dicts()\<close>.\<close>

definition anomaly_dict :: "parsed reading \<Rightarrow> f64 option \<Rightarrow> (string \<times> cell) list" where
  "anomaly_dict r z =
     [(''timestamp'', Datetime (timestamp r)),
      (''temperature'', Float (Num (temperature r))),
      (''temp_zscore'', (case z of None \<Rightarrow> Null | Some z' \<Rightarrow> Float z'))]"

definition detect_anomalies :: "string reading list \<Rightarrow> error + (string \<times> cell) list list" where
  "detect_anomalies recent_readings =
     (case get_sensor_dataframe recent_readings of
        Inl e \<Rightarrow> Inl e
      | Inr df \<Rightarrow>
          if length df < 10 then Inr []
          else
            let m = mean (map temperature df);
                s = std (map temperature df);
                df_with_zscore = map (\<lambda>r. (r, temp_zscore m s (temperature r))) df;
                anomalies = filter (\<lambda>(r, z). is_outlier z) df_with_zscore
            in Inr (map (\<lambda>(r, z). anomaly_dict r z) anomalies))"

section \<open>Chronological order of parsed timestamps\<close>

definition ts_key :: "parsed \<Rightarrow> nat list" where
  "ts_key t = [pY t, pm t, pd t, pH t, pM t, pS t, pf t]"

text \<open>\<open>ts_le a b\<close>: the timestamp \<open>a\<close> is not later than \<open>b\<close>.\<close>

fun lex_le :: "nat list \<Rightarrow> nat list \<Rightarrow> bool" where
  "lex_le [] ys = True"
| "lex_le (x # xs) [] = False"
| "lex_le (x # xs) (y # ys) = (x < y \<or> (x = y \<and> lex_le xs ys))"

definition ts_le :: "parsed \<Rightarrow> parsed \<Rightarrow> bool" where
  "ts_le a b = lex_le (ts_key a) (ts_key b)"

section \<open>The event streams (app.py)\<close>

text \<open>
  Every request to \<open>/stream\<close> gets an \<open>event_generator\<close> of its own. A stream is
  running until its generator leaves the loop through one of the two \<open>except\<close>
  branches; \<open>events\<close> are the \<open>sensor_update\<close> events it has yielded to its client.
\<close>

datatype stream_state = Running | Cancelled | Failed

record stream =
  state :: stream_state
  events :: "string reading list"

text \<open>
  The state shared by all requests: the module-level deque, the counter of
  \<open>DashboardMetrics\<close> and the generators created so far.
\<close>

record dashboard =
  recent_readings :: "string reading list"
  connection_count :: int
  streams :: "stream list"






section \<open>Example readings\<close>

text \<open>
  Readings for the instances below: stamped on 2024-01-05 at 13:07 and the given second,
  half a second past, with the given temperature; \<open>row\<close> is the same reading after the
  conversion.
\<close>

definition stamped :: "string \<Rightarrow> real \<Rightarrow> string reading" where
  "stamped sec t =
     \<lparr>timestamp = ''2024-01-05T13:07:'' @ sec @ ''.500000'', temperature = t, humidity = 40,
      pressure = 1010, status = ''normal''\<rparr>"

definition row :: "nat \<Rightarrow> real \<Rightarrow> parsed reading" where
  "row sec t =
     \<lparr>timestamp = \<lparr>pY = 2024, pm = 1, pd = 5, pH = 13, pM = 7, pS = sec, pf = 500000\<rparr>,
      temperature = t, humidity = 40, pressure = 1010, status = ''normal''\<rparr>"

section \<open>The rolling history buffer\<close>

lemma deque_append_full: "length buf = maxlen \<Longrightarrow> deque_append buf x = tl buf @ [x]"
  by (cases buf) (simp_all add: deque_append_def maxlen_def)

lemma deque_append_drop:
  "deque_append (drop (length ys - maxlen) ys) x = drop (length (ys @ [x]) - maxlen) (ys @ [x])"
proof (cases "length ys < maxlen")
  case True
  then show ?thesis by (simp add: deque_append_def)
next
  case False
  define k where "k = length ys - maxlen"
  from False have k: "Suc k \<le> length ys" "length ys = k + maxlen"
    by (simp_all add: k_def maxlen_def)
  then have ne: "drop k ys \<noteq> []" by simp
  have "deque_append (drop k ys) x = tl (drop k ys @ [x])"
    using k by (simp add: deque_append_def Let_def)
  also have "\<dots> = drop (Suc k) ys @ [x]"
    using ne by (simp add: tl_drop drop_Suc)
  also have "\<dots> = drop (length (ys @ [x]) - maxlen) (ys @ [x])"
    using k by simp
  finally show ?thesis by (simp add: k_def)
qed

lemma deque_extend_drop:
  "deque_extend (drop (length ys - maxlen) ys) xs = drop (length (ys @ xs) - maxlen) (ys @ xs)"
  unfolding deque_extend_def
proof (induction xs arbitrary: ys)
  case Nil
  show ?case by simp
next
  case (Cons x xs)
  have "foldl deque_append (drop (length ys - maxlen) ys) (x # xs)
        = foldl deque_append (drop (length (ys @ [x]) - maxlen) (ys @ [x])) xs"
    by (simp only: foldl_Cons deque_append_drop)
  also have "\<dots> = drop (length ((ys @ [x]) @ xs) - maxlen) ((ys @ [x]) @ xs)"
    by (rule Cons.IH)
  finally show ?case by simp
qed

text \<open>
  C1. Starting from the empty deque, after any sequence of appends the buffer holds at most
  \<open>maxlen = 100\<close> readings, and they are exactly the last 100 appended readings (all of
  them when fewer were appended) in the order of insertion; an append to a full buffer
  removes the single oldest entry and puts the new reading at the tail.
\<close>

theorem recent_readings_bounded_fifo:
  "length (deque_extend [] xs) \<le> maxlen
   \<and> maxlen = 100
   \<and> deque_extend [] xs = drop (length xs - maxlen) xs
   \<and> (length buf = maxlen \<longrightarrow> deque_append buf x = tl buf @ [x])"
  using deque_extend_drop [of "[]" xs] by (simp add: deque_append_full maxlen_def)

theorem recent_readings_bounded_fifo_witness:
  "length [1, 2, 3 :: nat] \<noteq> maxlen
   \<and> deque_extend [] [1, 2, 3 :: nat] = [1, 2, 3]
   \<and> length (replicate 100 (0::nat)) = maxlen
   \<and> deque_append (replicate 100 (0::nat)) 7 = replicate 99 0 @ [7]"
  using recent_readings_bounded_fifo [of "[1, 2, 3 :: nat]" "replicate 100 (0::nat)" 7]
  by (simp add: maxlen_def)

section \<open>Timestamps without a fraction do not convert\<close>

lemma scan_number_rest: "scan_number w s = Some (v, rest) \<Longrightarrow> set rest \<subseteq> set s"
  by (auto simp add: scan_number_def Let_def split: if_splits dest: in_set_dropD)

lemma strptime_items_literal:
  "strptime_items fmt s = Some vs \<Longrightarrow> c \<in> set fmt \<Longrightarrow> c \<noteq> CHR ''%'' \<Longrightarrow> width c = None
   \<Longrightarrow> c \<in> set s"
proof (induction fmt s arbitrary: vs rule: strptime_items.induct)
  case (1 s)
  then show ?case by simp
next
  case (2 a fmt s)
  show ?case
  proof (cases "a = CHR ''%''")
    case True
    with "2.prems" obtain d fmt' w v rest vs' where
      fmt: "fmt = d # fmt'" and w: "width d = Some w" and sc: "scan_number w s = Some (v, rest)"
      and rec: "strptime_items fmt' rest = Some vs'"
      by (auto split: list.splits option.splits)
    from "2.prems" True fmt w have "c \<in> set fmt'" by auto
    with "2.IH"(1) [OF True fmt w sc refl rec] "2.prems" have "c \<in> set rest" by simp
    with scan_number_rest [OF sc] show ?thesis by auto
  next
    case False
    with "2.prems" obtain rest where s: "s = a # rest" and rec: "strptime_items fmt rest = Some vs"
      by (auto split: list.splits if_splits)
    show ?thesis
    proof (cases "c = a")
      case True
      with s show ?thesis by simp
    next
      case ne: False
      with "2.prems" have "c \<in> set fmt" by simp
      with "2.IH"(2) [OF False s refl rec] "2.prems" s show ?thesis by simp
    qed
  qed
qed

lemma strptime_dot: "strptime timestamp_format s = Some t \<Longrightarrow> CHR ''.'' \<in> set s"
proof -
  assume "strptime timestamp_format s = Some t"
  then obtain vs where "strptime_items timestamp_format s = Some vs"
    by (cases "strptime_items timestamp_format s") (simp_all add: strptime_def)
  then show ?thesis
    by (rule strptime_items_literal) (simp_all add: timestamp_format_def width_def)
qed

lemma digit_not_dot: "n < 10 \<Longrightarrow> digit n \<noteq> CHR ''.''"
proof
  assume n: "n < 10" and "digit n = CHR ''.''"
  then have "(of_char (digit n) :: nat) = of_char (CHR ''.'')" by simp
  with n show False by (simp add: digit_def)
qed

lemma pad2_no_dot: "CHR ''.'' \<notin> set (pad2 n)"
  using digit_not_dot [of "n div 10 mod 10"] digit_not_dot [of "n mod 10"]
  by (auto simp add: pad2_def)

lemma isoformat_no_dot: "microsecond dt = 0 \<Longrightarrow> CHR ''.'' \<notin> set (isoformat dt)"
  by (simp add: isoformat_def pad4_def pad2_no_dot)

lemma parse_timestamps_ok:
  "parse_timestamps rs = Inr rows \<Longrightarrow> r \<in> set rs
   \<Longrightarrow> \<exists>t. strptime timestamp_format (timestamp r) = Some t"
  by (induction rs arbitrary: rows) (auto split: option.splits sum.splits)

lemma parse_timestamps_fail:
  "r \<in> set rs \<Longrightarrow> strptime timestamp_format (timestamp r) = None
   \<Longrightarrow> parse_timestamps rs = Inl ComputeError"
proof -
  assume a: "r \<in> set rs" "strptime timestamp_format (timestamp r) = None"
  show ?thesis
  proof (cases "parse_timestamps rs")
    case (Inl e)
    then show ?thesis by (cases e) simp
  next
    case (Inr rows)
    from parse_timestamps_ok [OF Inr a(1)] a(2) show ?thesis by simp
  qed
qed

text \<open>
  C10. The conversion of a non-empty buffer succeeds only if the timestamp string of every
  stored reading has a fractional-seconds part (a \<open>.\<close> followed by digits); when some
  reading was stamped with a datetime whose \<open>microsecond\<close> is 0, \<open>isoformat\<close> leaves
  the fraction out, the value does not parse against \<open>%Y-%m-%dT%H:%M:%S.%f\<close> and the
  conversion raises instead of returning a frame.
\<close>

theorem get_sensor_dataframe_needs_fraction:
  "(get_sensor_dataframe buf = Inr df \<longrightarrow> (\<forall>r \<in> set buf. CHR ''.'' \<in> set (timestamp r)))
   \<and> (r \<in> set buf \<and> timestamp r = isoformat dt \<and> microsecond dt = 0
        \<longrightarrow> get_sensor_dataframe buf = Inl ComputeError)"
proof (intro conjI impI ballI)
  fix x assume ok: "get_sensor_dataframe buf = Inr df" and x: "x \<in> set buf"
  then have "parse_timestamps buf = Inr df"
    by (auto simp add: get_sensor_dataframe_def split: if_splits)
  from parse_timestamps_ok [OF this x] show "CHR ''.'' \<in> set (timestamp x)"
    by (auto dest: strptime_dot)
next
  assume a: "r \<in> set buf \<and> timestamp r = isoformat dt \<and> microsecond dt = 0"
  then have "CHR ''.'' \<notin> set (timestamp r)" by (simp add: isoformat_no_dot)
  then have "strptime timestamp_format (timestamp r) = None"
    using strptime_dot [of "timestamp r"] by (cases "strptime timestamp_format (timestamp r)") auto
  with a have "parse_timestamps buf = Inl ComputeError" by (auto intro: parse_timestamps_fail)
  with a show "get_sensor_dataframe buf = Inl ComputeError"
    by (auto simp add: get_sensor_dataframe_def)
qed

lemmas parse_simps = strptime_def timestamp_format_def scan_number_def width_def is_digit_def
  digit_val_def valid_fields_def days_in_month_def leap_year_def Let_def

lemmas isoformat_simps = isoformat_def pad6_def pad4_def pad2_def digit_def char_of_def
  bit_Suc_0_iff

theorem get_sensor_dataframe_needs_fraction_witness:
  "get_sensor_dataframe
     [\<lparr>timestamp = ''2024-01-05T13:07:09.123456'', temperature = 20, humidity = 40,
       pressure = 1010, status = ''normal''\<rparr>]
   = Inr [\<lparr>timestamp = \<lparr>pY = 2024, pm = 1, pd = 5, pH = 13, pM = 7, pS = 9, pf = 123456\<rparr>,
           temperature = 20, humidity = 40, pressure = 1010, status = ''normal''\<rparr>]
   \<and> CHR ''.'' \<in> set ''2024-01-05T13:07:09.123456''
   \<and> generate_reading
       \<lparr>year = 2024, month = 1, day = 5, hour = 13, minute = 7, second = 9, microsecond = 0\<rparr>
       None 20 40 1010 ''normal''
     = \<lparr>timestamp = ''2024-01-05T13:07:09'', temperature = 20, humidity = 40,
        pressure = 1010, status = ''normal''\<rparr>
   \<and> get_sensor_dataframe
       [generate_reading
          \<lparr>year = 2024, month = 1, day = 5, hour = 13, minute = 7, second = 9,
            microsecond = 0\<rparr>
          None 20 40 1010 ''normal'']
     = Inl ComputeError"
proof -
  let ?good = "\<lparr>timestamp = ''2024-01-05T13:07:09.123456'', temperature = 20::real,
                 humidity = 40::real, pressure = 1010::real, status = ''normal''\<rparr>"
  let ?dt = "\<lparr>year = 2024, month = 1, day = 5, hour = 13, minute = 7, second = 9,
               microsecond = 0\<rparr>"
  let ?bad = "generate_reading ?dt None 20 40 1010 ''normal''"
  have ok: "get_sensor_dataframe [?good]
      = Inr [\<lparr>timestamp = \<lparr>pY = 2024, pm = 1, pd = 5, pH = 13, pM = 7, pS = 9, pf = 123456\<rparr>,
              temperature = 20, humidity = 40, pressure = 1010, status = ''normal''\<rparr>]"
    by (simp add: get_sensor_dataframe_def parse_simps)
  have bad: "?bad = \<lparr>timestamp = ''2024-01-05T13:07:09'', temperature = 20, humidity = 40,
      pressure = 1010, status = ''normal''\<rparr>"
    by (simp add: generate_reading_def isoformat_simps)
  have stamp: "timestamp ?bad = isoformat ?dt"
    by (simp add: generate_reading_def)
  from get_sensor_dataframe_needs_fraction [of "[?good]" _ ?good] ok
  have dot: "CHR ''.'' \<in> set ''2024-01-05T13:07:09.123456''" by simp
  from get_sensor_dataframe_needs_fraction [of "[?bad]" _ ?bad ?dt] stamp
  have "get_sensor_dataframe [?bad] = Inl ComputeError" by simp
  with ok bad dot show ?thesis by simp
qed

section \<open>The converted frame keeps the rows of the buffer\<close>





section \<open>Insufficient data and the empty buffer\<close>

text \<open>
  C5. When the snapshot taken from the buffer has fewer than 10 readings,
  \<open>detect_anomalies\<close> returns the empty list, whatever the readings are; this includes
  the empty buffer.
\<close>

theorem detect_anomalies_insufficient:
  "(get_sensor_dataframe buf = Inr df \<and> length df < 10 \<longrightarrow> detect_anomalies buf = Inr [])
   \<and> detect_anomalies [] = Inr []"
  by (simp add: detect_anomalies_def get_sensor_dataframe_def)

theorem detect_anomalies_insufficient_witness:
  "get_sensor_dataframe
     [\<lparr>timestamp = ''2024-01-05T13:07:09.123456'', temperature = 99, humidity = 40,
       pressure = 1010, status = ''critical''\<rparr>]
   = Inr [\<lparr>timestamp = \<lparr>pY = 2024, pm = 1, pd = 5, pH = 13, pM = 7, pS = 9, pf = 123456\<rparr>,
           temperature = 99, humidity = 40, pressure = 1010, status = ''critical''\<rparr>]
   \<and> detect_anomalies
       [\<lparr>timestamp = ''2024-01-05T13:07:09.123456'', temperature = 99, humidity = 40,
         pressure = 1010, status = ''critical''\<rparr>]
     = Inr []"
proof -
  let ?r = "\<lparr>timestamp = ''2024-01-05T13:07:09.123456'', temperature = 99::real,
              humidity = 40::real, pressure = 1010::real, status = ''critical''\<rparr>"
  let ?df = "[\<lparr>timestamp = \<lparr>pY = 2024, pm = 1, pd = 5, pH = 13, pM = 7, pS = 9, pf = 123456\<rparr>,
               temperature = 99::real, humidity = 40::real, pressure = 1010::real,
               status = ''critical''\<rparr>]"
  have ok: "get_sensor_dataframe [?r] = Inr ?df"
    by (simp add: get_sensor_dataframe_def parse_simps)
  have "length ?df < 10" by simp
  with ok detect_anomalies_insufficient [of "[?r]" ?df]
  have "detect_anomalies [?r] = Inr []" by blast
  with ok show ?thesis by simp
qed

text \<open>
  C9. On the empty buffer \<open>get_statistical_summary\<close> does not raise: the conversion
  returns the empty frame and the summary is the empty dictionary, which has no entry
  for any field.
\<close>

theorem get_statistical_summary_empty:
  "get_statistical_summary groups [] = Inr [] \<and> get_sensor_dataframe [] = Inr []"
  by (simp add: get_statistical_summary_def get_sensor_dataframe_def)

section \<open>Mean and standard deviation of the summary\<close>

lemma sum_list_const: "\<forall>r \<in> set rs. f r = (v::real) \<Longrightarrow> sum_list (map f rs) = real (length rs) * v"
  by (induction rs) (simp_all add: algebra_simps)

lemma sum_list_zero: "\<forall>r \<in> set rs. g r = (0::real) \<Longrightarrow> sum_list (map g rs) = 0"
  by (induction rs) simp_all



lemma identical_column:
  assumes "\<forall>r \<in> set rs. f r = (v::real)" and "rs \<noteq> []"
  shows "sum_list (map f rs) / real (length rs) = v"
    and "sqrt (sum_list (map (\<lambda>r. (f r - sum_list (map f rs) / real (length rs))\<^sup>2) rs)
               / real (length rs - 1)) = 0"
proof -
  from sum_list_const [OF assms(1)] assms(2)
  show m: "sum_list (map f rs) / real (length rs) = v"
    by simp
  from assms(1) have "\<forall>r \<in> set rs. (f r - v)\<^sup>2 = 0" by simp
  then have "sum_list (map (\<lambda>r. (f r - v)\<^sup>2) rs) = 0" by (rule sum_list_zero)
  with m show "sqrt (sum_list (map (\<lambda>r. (f r - sum_list (map f rs) / real (length rs))\<^sup>2) rs)
               / real (length rs - 1)) = 0"
    by simp
qed





section \<open>Status counts\<close>

lemma value_counts_complete:
  "group_order groups xs \<Longrightarrow>
     (c \<in> set xs \<longleftrightarrow> Struct [(''status'', Str c), (''count'', UInt (count_list xs c))]
                      \<in> set (value_counts groups xs))
     \<and> length (value_counts groups xs) = card (set xs)"
  using distinct_card [of groups] by (auto simp add: group_order_def value_counts_def)

text \<open>
  C7. The \<open>status_counts\<close> of the summary come from \<open>value_counts()\<close> without a sort:
  for two readings with status \<open>warning\<close> then \<open>normal\<close>, and the groups delivered in the
  order of first appearance, the entry of \<open>warning\<close> stands before the entry of
  \<open>normal\<close>.
\<close>

theorem status_counts_not_sorted:
  "group_order [''warning'', ''normal''] [''warning'', ''normal'']
   \<and> get_statistical_summary [''warning'', ''normal'']
       [\<lparr>timestamp = ''2024-01-05T13:07:09.123456'', temperature = 20, humidity = 40,
         pressure = 1010, status = ''warning''\<rparr>,
        \<lparr>timestamp = ''2024-01-05T13:07:12.123457'', temperature = 20, humidity = 40,
         pressure = 1010, status = ''normal''\<rparr>]
     = Inr [(''temp_mean'', [Float (Num 20), Float (Num 20)]),
            (''temp_std'', [Float (Num 0), Float (Num 0)]),
            (''humidity_mean'', [Float (Num 40), Float (Num 40)]),
            (''humidity_std'', [Float (Num 0), Float (Num 0)]),
            (''pressure_mean'', [Float (Num 1010), Float (Num 1010)]),
            (''pressure_std'', [Float (Num 0), Float (Num 0)]),
            (''status_counts'',
               [Struct [(''status'', Str ''warning''), (''count'', UInt 1)],
                Struct [(''status'', Str ''normal''), (''count'', UInt 1)]])]"
  by (simp add: get_statistical_summary_def get_sensor_dataframe_def parse_simps
      value_counts_def mean_def std_def float_cell_def group_order_def)

section \<open>Anomaly detection on ten or more readings\<close>

lemma detect_anomalies_rows:
  assumes "get_sensor_dataframe buf = Inr df" and "10 \<le> length df"
  shows "detect_anomalies buf =
    Inr (map (\<lambda>r. anomaly_dict r
                 (temp_zscore (mean (map temperature df)) (std (map temperature df)) (temperature r)))
          (filter (\<lambda>r. is_outlier
                 (temp_zscore (mean (map temperature df)) (std (map temperature df)) (temperature r)))
             df))"
  using assms by (simp add: detect_anomalies_def Let_def filter_map o_def)

lemma temp_zscore_column:
  assumes "2 \<le> length df"
  shows "temp_zscore (mean (map temperature df)) (std (map temperature df)) x =
    Some (fdiv (x - sum_list (map temperature df) / real (length df))
            (sqrt (sum_list (map (\<lambda>r. (temperature r - sum_list (map temperature df) / real (length df))\<^sup>2) df)
                   / real (length df - 1))))"
proof -
  from assms have "df \<noteq> []" and "\<not> length df \<le> 1" by auto
  then show ?thesis
    by (simp add: temp_zscore_def mean_def std_def Let_def o_def)
qed

lemma is_outlier_num: "s \<noteq> 0 \<Longrightarrow> is_outlier (Some (fdiv a s)) = (2 < \<bar>a / s\<bar>)"
  by (simp add: is_outlier_def fdiv_def)

lemma is_outlier_zero: "is_outlier (Some (fdiv 0 0)) \<and> fdiv 0 0 = NaN"
  by (simp add: is_outlier_def fdiv_def)




lemma zscore_rows:
  assumes "get_sensor_dataframe buf = Inr df" and "10 \<le> length df"
    and "m = sum_list (map temperature df) / real (length df)"
    and "s = sqrt (sum_list (map (\<lambda>r. (temperature r - m)\<^sup>2) df) / real (length df - 1))"
    and "s \<noteq> 0"
  shows "detect_anomalies buf =
    Inr (map (\<lambda>r. [(''timestamp'', Datetime (timestamp r)),
                    (''temperature'', Float (Num (temperature r))),
                    (''temp_zscore'', Float (Num ((temperature r - m) / s)))])
          (filter (\<lambda>r. 2 < \<bar>(temperature r - m) / s\<bar>) df))"
proof -
  from assms(2) have two: "2 \<le> length df" by simp
  have z: "temp_zscore (mean (map temperature df)) (std (map temperature df)) x
      = Some (fdiv (x - m) s)" for x
    unfolding temp_zscore_column [OF two] assms(3, 4) ..
  show ?thesis
    unfolding detect_anomalies_rows [OF assms(1, 2)] z is_outlier_num [OF assms(5)]
    using assms(5) by (simp add: anomaly_dict_def fdiv_def)
qed



lemma stamped_frame:
  "get_sensor_dataframe
     [stamped ''00'' a0, stamped ''01'' a1, stamped ''02'' a2, stamped ''03'' a3,
      stamped ''04'' a4, stamped ''05'' a5, stamped ''06'' a6, stamped ''07'' a7,
      stamped ''08'' a8, stamped ''09'' a9]
   = Inr [row 0 a0, row 1 a1, row 2 a2, row 3 a3, row 4 a4, row 5 a5, row 6 a6, row 7 a7,
          row 8 a8, row 9 a9]"
  by (simp add: get_sensor_dataframe_def stamped_def row_def parse_simps)


section \<open>Identical temperatures\<close>

lemma identical_temperatures_all_flagged:
  assumes "get_sensor_dataframe buf = Inr df" and "10 \<le> length df"
    and "\<forall>r \<in> set df. temperature r = v"
  shows "detect_anomalies buf = Inr (map (\<lambda>r. anomaly_dict r (Some NaN)) df)"
proof -
  from assms(2) have two: "2 \<le> length df" and ne: "df \<noteq> []" by auto
  note stats = identical_column [OF assms(3) ne]
  from stats have dev: "sqrt (sum_list (map (\<lambda>r. (temperature r - v)\<^sup>2) df) / real (length df - 1)) = 0"
    by simp
  have z: "temp_zscore (mean (map temperature df)) (std (map temperature df)) (temperature r)
      = Some NaN" if "r \<in> set df" for r
    using that assms(3) unfolding temp_zscore_column [OF two] stats(1) dev
    by (simp add: fdiv_def)
  have "filter (\<lambda>r. is_outlier
          (temp_zscore (mean (map temperature df)) (std (map temperature df)) (temperature r))) df
      = df"
    by (rule filter_True) (simp add: z is_outlier_def)
  then show ?thesis
    unfolding detect_anomalies_rows [OF assms(1, 2)] by (simp add: z cong: map_cong)
qed

text \<open>
  C6. Ten readings that all have temperature 20: the mean is 20, the standard deviation
  is 0, the z-score of every reading is \<open>0 / 0\<close>, which is NaN; NaN compares greater than
  2, so all ten readings are returned as anomalies. Nothing is raised.
\<close>

theorem identical_temperatures_flagged:
  "detect_anomalies
     [stamped ''00'' 20, stamped ''01'' 20, stamped ''02'' 20, stamped ''03'' 20,
      stamped ''04'' 20, stamped ''05'' 20, stamped ''06'' 20, stamped ''07'' 20,
      stamped ''08'' 20, stamped ''09'' 20]
   = Inr [anomaly_dict (row 0 20) (Some NaN), anomaly_dict (row 1 20) (Some NaN),
          anomaly_dict (row 2 20) (Some NaN), anomaly_dict (row 3 20) (Some NaN),
          anomaly_dict (row 4 20) (Some NaN), anomaly_dict (row 5 20) (Some NaN),
          anomaly_dict (row 6 20) (Some NaN), anomaly_dict (row 7 20) (Some NaN),
          anomaly_dict (row 8 20) (Some NaN), anomaly_dict (row 9 20) (Some NaN)]
   \<and> anomaly_dict (row 0 20) (Some NaN)
     = [(''timestamp'',
           Datetime \<lparr>pY = 2024, pm = 1, pd = 5, pH = 13, pM = 7, pS = 0, pf = 500000\<rparr>),
        (''temperature'', Float (Num 20)),
        (''temp_zscore'', Float NaN)]
   \<and> std (map temperature [row 0 20, row 1 20, row 2 20, row 3 20, row 4 20, row 5 20,
                             row 6 20, row 7 20, row 8 20, row 9 20]) = Some 0"
proof -
  let ?df = "[row 0 20, row 1 20, row 2 20, row 3 20, row 4 20, row 5 20, row 6 20, row 7 20,
              row 8 20, row 9 20]"
  have "\<forall>r \<in> set ?df. temperature r = 20" by (simp add: row_def)
  from identical_temperatures_all_flagged [OF stamped_frame _ this]
  show ?thesis by (simp add: anomaly_dict_def row_def std_def)
qed

section \<open>Shape and order of the anomaly list\<close>

lemma detect_anomalies_filter:
  assumes "get_sensor_dataframe buf = Inr df"
  shows "\<exists>P z. detect_anomalies buf = Inr (map (\<lambda>r. anomaly_dict r (z r)) (filter P df))"
proof (cases "length df < 10")
  case True
  with assms show ?thesis
    by (intro exI [of _ "\<lambda>r. False"] exI [of _ "\<lambda>r. None"]) (simp add: detect_anomalies_def)
next
  case False
  then have "10 \<le> length df" by simp
  from detect_anomalies_rows [OF assms this] show ?thesis
    by (intro exI [of _ "\<lambda>r. is_outlier (temp_zscore (mean (map temperature df))
              (std (map temperature df)) (temperature r))"]
          exI [of _ "\<lambda>r. temp_zscore (mean (map temperature df))
              (std (map temperature df)) (temperature r)"])
qed

lemma anomaly_dict_keys:
  "map (map fst) (map (\<lambda>r. anomaly_dict r (z r)) rows)
   = replicate (length rows) [''timestamp'', ''temperature'', ''temp_zscore'']"
  by (induction rows) (simp_all add: anomaly_dict_def)

text \<open>
  C8 (amended). The result of \<open>detect_anomalies\<close> is a list of dictionaries, each with
  exactly the keys \<open>timestamp\<close>, \<open>temperature\<close> and \<open>temp_zscore\<close> in this order, made from
  a selection of the snapshot's rows in snapshot order; it is ascending by timestamp
  whenever the snapshot is.
\<close>

theorem detect_anomalies_snapshot_order:
  "get_sensor_dataframe buf = Inr df \<and> detect_anomalies buf = Inr out \<longrightarrow>
     (\<exists>P z. out = map (\<lambda>r. anomaly_dict r (z r)) (filter P df)
        \<and> map (map fst) out
            = replicate (length out) [''timestamp'', ''temperature'', ''temp_zscore'']
        \<and> map (\<lambda>a. map_of a ''timestamp'') out
            = map (\<lambda>r. Some (Datetime (timestamp r))) (filter P df)
        \<and> (sorted_wrt ts_le (map timestamp df)
             \<longrightarrow> sorted_wrt ts_le (map timestamp (filter P df))))"
proof
  assume a: "get_sensor_dataframe buf = Inr df \<and> detect_anomalies buf = Inr out"
  with detect_anomalies_filter [of buf df] obtain P z
    where out: "out = map (\<lambda>r. anomaly_dict r (z r)) (filter P df)" by auto
  have keys: "map (map fst) out
      = replicate (length out) [''timestamp'', ''temperature'', ''temp_zscore'']"
    unfolding out using anomaly_dict_keys [of z "filter P df"] by simp
  have ts: "map (\<lambda>a. map_of a ''timestamp'') out
      = map (\<lambda>r. Some (Datetime (timestamp r))) (filter P df)"
    unfolding out by (simp add: anomaly_dict_def o_def)
  have "sorted_wrt ts_le (map timestamp (filter P df))" if "sorted_wrt ts_le (map timestamp df)"
    using that by (simp add: sorted_wrt_map sorted_wrt_filter)
  with out keys ts show "\<exists>P z. out = map (\<lambda>r. anomaly_dict r (z r)) (filter P df)
        \<and> map (map fst) out
            = replicate (length out) [''timestamp'', ''temperature'', ''temp_zscore'']
        \<and> map (\<lambda>a. map_of a ''timestamp'') out
            = map (\<lambda>r. Some (Datetime (timestamp r))) (filter P df)
        \<and> (sorted_wrt ts_le (map timestamp df)
             \<longrightarrow> sorted_wrt ts_le (map timestamp (filter P df)))"
    by blast
qed

lemma sqrt_200_9: "0 < sqrt (200 / 9)" "sqrt (200 / 9) < 5"
  by simp (rule real_less_lsqrt, simp_all)

lemma outlier_rows:
  fixes s :: real
  assumes "0 < s" and "s < 5"
  shows "2 < \<bar>(temperature (row a 30) - 20) / s\<bar>"
    and "2 < \<bar>(temperature (row a 10) - 20) / s\<bar>"
    and "\<not> 2 < \<bar>(temperature (row a 20) - 20) / s\<bar>"
  using assms by (simp_all add: row_def pos_less_divide_eq)

lemma first_and_last_outliers:
  assumes ok: "get_sensor_dataframe buf =
      Inr [row a0 30, row a1 20, row a2 20, row a3 20, row a4 20, row a5 20, row a6 20,
           row a7 20, row a8 20, row a9 10]"
  shows "detect_anomalies buf =
      Inr [anomaly_dict (row a0 30) (Some (Num (10 / sqrt (200 / 9)))),
           anomaly_dict (row a9 10) (Some (Num (- 10 / sqrt (200 / 9))))]"
proof -
  let ?df = "[row a0 30, row a1 20, row a2 20, row a3 20, row a4 20, row a5 20, row a6 20,
      row a7 20, row a8 20, row a9 10]"
  define s :: real where "s = sqrt (200 / 9)"
  have ten: "10 \<le> length ?df" by simp
  have m: "20 = sum_list (map temperature ?df) / real (length ?df)"
    by (simp add: row_def)
  have dev: "s = sqrt (sum_list (map (\<lambda>r. (temperature r - 20)\<^sup>2) ?df) / real (length ?df - 1))"
    by (simp add: row_def s_def)
  from sqrt_200_9 have s: "0 < s" "s < 5" "s \<noteq> 0" by (simp_all add: s_def)
  note rows = outlier_rows [OF s(1, 2)]
  have sel: "filter (\<lambda>r. 2 < \<bar>(temperature r - 20) / s\<bar>) ?df = [row a0 30, row a9 10]"
    by (simp only: filter.simps rows if_True if_False)
  have "detect_anomalies buf =
      Inr (map (\<lambda>r. [(''timestamp'', Datetime (timestamp r)),
                      (''temperature'', Float (Num (temperature r))),
                      (''temp_zscore'', Float (Num ((temperature r - 20) / s)))])
            [row a0 30, row a9 10])"
    using zscore_rows [OF ok ten m dev s(3)] unfolding sel .
  then show ?thesis by (simp add: anomaly_dict_def row_def s_def)
qed

lemma stamped_frame_descending:
  "get_sensor_dataframe
     [stamped ''09'' a9, stamped ''08'' a8, stamped ''07'' a7, stamped ''06'' a6,
      stamped ''05'' a5, stamped ''04'' a4, stamped ''03'' a3, stamped ''02'' a2,
      stamped ''01'' a1, stamped ''00'' a0]
   = Inr [row 9 a9, row 8 a8, row 7 a7, row 6 a6, row 5 a5, row 4 a4, row 3 a3, row 2 a2,
          row 1 a1, row 0 a0]"
  by (simp add: get_sensor_dataframe_def stamped_def row_def parse_simps)

theorem detect_anomalies_snapshot_order_witness:
  "get_sensor_dataframe
     [stamped ''00'' 30, stamped ''01'' 20, stamped ''02'' 20, stamped ''03'' 20,
      stamped ''04'' 20, stamped ''05'' 20, stamped ''06'' 20, stamped ''07'' 20,
      stamped ''08'' 20, stamped ''09'' 10]
   = Inr [row 0 30, row 1 20, row 2 20, row 3 20, row 4 20, row 5 20, row 6 20, row 7 20,
          row 8 20, row 9 10]
   \<and> detect_anomalies
       [stamped ''00'' 30, stamped ''01'' 20, stamped ''02'' 20, stamped ''03'' 20,
        stamped ''04'' 20, stamped ''05'' 20, stamped ''06'' 20, stamped ''07'' 20,
        stamped ''08'' 20, stamped ''09'' 10]
     = Inr [anomaly_dict (row 0 30) (Some (Num (10 / sqrt (200 / 9)))),
            anomaly_dict (row 9 10) (Some (Num (- 10 / sqrt (200 / 9))))]
   \<and> map (map fst)
       [anomaly_dict (row 0 30) (Some (Num (10 / sqrt (200 / 9)))),
        anomaly_dict (row 9 10) (Some (Num (- 10 / sqrt (200 / 9))))]
     = [[''timestamp'', ''temperature'', ''temp_zscore''],
        [''timestamp'', ''temperature'', ''temp_zscore'']]
   \<and> sorted_wrt ts_le
       (map timestamp [row 0 30, row 1 20, row 2 20, row 3 20, row 4 20, row 5 20, row 6 20,
                       row 7 20, row 8 20, row 9 10])
   \<and> ts_le (timestamp (row 0 30)) (timestamp (row 9 10))"
proof -
  let ?buf = "[stamped ''00'' 30, stamped ''01'' 20, stamped ''02'' 20, stamped ''03'' 20,
      stamped ''04'' 20, stamped ''05'' 20, stamped ''06'' 20, stamped ''07'' 20,
      stamped ''08'' 20, stamped ''09'' 10]"
  let ?df = "[row 0 30, row 1 20, row 2 20, row 3 20, row 4 20, row 5 20, row 6 20, row 7 20,
      row 8 20, row 9 10]"
  let ?out = "[anomaly_dict (row 0 30) (Some (Num (10 / sqrt (200 / 9)))),
      anomaly_dict (row 9 10) (Some (Num (- 10 / sqrt (200 / 9))))]"
  have ok: "get_sensor_dataframe ?buf = Inr ?df" by (rule stamped_frame)
  have out: "detect_anomalies ?buf = Inr ?out" by (rule first_and_last_outliers [OF ok])
  from detect_anomalies_snapshot_order [of ?buf ?df ?out] ok out
  have keys: "map (map fst) ?out
      = replicate (length ?out) [''timestamp'', ''temperature'', ''temp_zscore'']"
    by blast
  have asc: "sorted_wrt ts_le (map timestamp ?df)"
    by (simp add: ts_le_def ts_key_def row_def)
  have "ts_le (timestamp (row 0 30)) (timestamp (row 9 10))"
    by (simp add: ts_le_def ts_key_def row_def)
  with ok out keys asc show ?thesis by (simp add: numeral_2_eq_2)
qed

theorem anomalies_not_ascending:
  "detect_anomalies
     [stamped ''09'' 30, stamped ''08'' 20, stamped ''07'' 20, stamped ''06'' 20,
      stamped ''05'' 20, stamped ''04'' 20, stamped ''03'' 20, stamped ''02'' 20,
      stamped ''01'' 20, stamped ''00'' 10]
   = Inr [anomaly_dict (row 9 30) (Some (Num (10 / sqrt (200 / 9)))),
          anomaly_dict (row 0 10) (Some (Num (- 10 / sqrt (200 / 9))))]
   \<and> map_of (anomaly_dict (row 9 30) (Some (Num (10 / sqrt (200 / 9))))) ''timestamp''
     = Some (Datetime \<lparr>pY = 2024, pm = 1, pd = 5, pH = 13, pM = 7, pS = 9, pf = 500000\<rparr>)
   \<and> map_of (anomaly_dict (row 0 10) (Some (Num (- 10 / sqrt (200 / 9))))) ''timestamp''
     = Some (Datetime \<lparr>pY = 2024, pm = 1, pd = 5, pH = 13, pM = 7, pS = 0, pf = 500000\<rparr>)
   \<and> \<not> ts_le \<lparr>pY = 2024, pm = 1, pd = 5, pH = 13, pM = 7, pS = 9, pf = 500000\<rparr>
             \<lparr>pY = 2024, pm = 1, pd = 5, pH = 13, pM = 7, pS = 0, pf = 500000\<rparr>
   \<and> map fst (anomaly_dict (row 9 30) (Some (Num (10 / sqrt (200 / 9)))))
     = [''timestamp'', ''temperature'', ''temp_zscore'']
   \<and> ''temp_zscore'' \<noteq> ''z_score''"
  using first_and_last_outliers [OF stamped_frame_descending]
  by (simp add: anomaly_dict_def row_def ts_le_def ts_key_def)

section \<open>Event streams are independent\<close>






end
